theory Spec2Isabelle
  imports Main "HOL-Library.Sublist" "HOL-Library.AList"
begin

section \<open>Strings\<close>

text \<open>
  Python's \<^verbatim>\<open>str\<close> is modelled by \<^typ>\<open>string\<close>: a character is a code
  point below 256, so the strings of the model are Python's strings over Latin-1, and
  text with a code point from 256 on is outside the model. The three string operations
  \<^verbatim>\<open>TravelAgent.process\<close> uses are \<^verbatim>\<open>lower()\<close>,
  \<^verbatim>\<open>needle in text\<close> and \<^verbatim>\<open>strip()\<close>. The test
  \<^verbatim>\<open>needle in text\<close> is the library's \<^const>\<open>sublist\<close> (a contiguous
  run). \<open>lower\<close> maps the letters A to Z and the capital letters of Latin-1 (U+00C0
  to U+00DE, without the multiplication sign U+00D7) to their small forms, 32 code
  points further on, and leaves every other character alone. \<open>strip\<close> removes from
  both ends the characters Python counts as white space: tab to carriage return, the
  four separators from 28 to 31, the space, U+0085 and U+00A0.
\<close>

definition lower_char :: "char \<Rightarrow> char" where
  "lower_char c =
     (let n = (of_char c :: nat) in
      if (65 \<le> n \<and> n \<le> 90) \<or> (192 \<le> n \<and> n \<le> 214) \<or> (216 \<le> n \<and> n \<le> 222)
      then char_of (n + 32) else c)"

definition lower :: "string \<Rightarrow> string" where
  "lower s = map lower_char s"

definition isspace :: "char \<Rightarrow> bool" where
  "isspace c =
     (let n = (of_char c :: nat) in
      (9 \<le> n \<and> n \<le> 13) \<or> (28 \<le> n \<and> n \<le> 32) \<or> n = 133 \<or> n = 160)"

definition strip :: "string \<Rightarrow> string" where
  "strip s = rev (dropWhile isspace (rev (dropWhile isspace s)))"

section \<open>The business logic: \<^verbatim>\<open>TravelAgent.process\<close>\<close>

text \<open>
  The dict \<^verbatim>\<open>process\<close> returns has the three keys \<^verbatim>\<open>response\<close>,
  \<^verbatim>\<open>needs_input\<close> and \<^verbatim>\<open>booking\<close>; the booking is itself a dict
  from strings to strings (kept as an association list, in the order the source writes
  the keys) or \<^verbatim>\<open>None\<close>.
\<close>

type_synonym booking_dict = "(string \<times> string) list"

record result =
  response :: string
  needs_input :: bool
  booking :: "booking_dict option"

definition date_words :: "string list" where
  "date_words =
     [''jan'', ''feb'', ''mar'', ''apr'', ''may'', ''jun'',
      ''jul'', ''aug'', ''sep'', ''oct'', ''nov'', ''dec'',
      ''2025'', ''2026'', ''2027'']"

definition has_date :: "string \<Rightarrow> bool" where
  "has_date txt = list_ex (\<lambda>date. sublist date txt) date_words"

definition hotel_booking :: booking_dict where
  "hotel_booking =
     [(''type'', ''Hotel''),
      (''hotel'', ''Le Ciel Paris Airport''),
      (''location'', ''Near Charles de Gaulle Airport, Paris''),
      (''check_in'', ''June 15, 2026''),
      (''check_out'', ''June 22, 2026''),
      (''room'', ''Deluxe King''),
      (''status'', ''CONFIRMED'')]"

definition flight_booking :: "string \<Rightarrow> booking_dict" where
  "flight_booking user_input =
     [(''type'', ''Flight''),
      (''destination'', ''Paris''),
      (''departure'', strip user_input),
      (''airline'', ''SkyHigh Airlines''),
      (''flight'', ''SH-1042''),
      (''status'', ''CONFIRMED'')]"

definition ask_dates :: string where
  "ask_dates =
     ''I'd be happy to help you book a flight! '' @
     ''Could you please provide your preferred travel dates? '' @
     ''(e.g. 'June 15 - June 22, 2026')''"

definition process :: "string \<Rightarrow> string \<Rightarrow> result" where
  "process user_input context_id' =
     (let txt = lower user_input in
      if sublist ''hotel'' txt then
        \<lparr>response = ''Your hotel has been booked! Here are the details:'',
         needs_input = False,
         booking = Some hotel_booking\<rparr>
      else if has_date txt then
        \<lparr>response = ''Your flight has been booked! Here are the details:'',
         needs_input = False,
         booking = Some (flight_booking user_input)\<rparr>
      else
        \<lparr>response = ask_dates, needs_input = True, booking = None\<rparr>)"

section \<open>Protocol data\<close>

text \<open>
  Modelled from the spec: the types of the a2a SDK (\<^verbatim>\<open>a2a.types\<close>,
  \<^verbatim>\<open>RequestContext\<close>, \<^verbatim>\<open>EventQueue\<close>), which is not among the
  sources. Tasks, messages, artifacts, events and the errors follow sections 3 and 7 of
  the specification. Task identifiers are opaque to the executor (it only passes them
  on), so they are natural numbers here; context identifiers are strings. Message ids,
  artifact ids and time stamps are random or real-time values and are left out.
  \<open>KeyError\<close> and \<open>AttributeError\<close> are Python's own, for the accesses to the
  booking dict.
\<close>

type_synonym task_id = nat

datatype TaskState = SUBMITTED | WORKING | INPUT_REQUIRED | COMPLETED | CANCELED | FAILED

datatype Role = RoleUser | RoleAgent

datatype Part = TextPart string

record Message =
  role :: Role
  parts :: "Part list"
  m_context_id :: string
  m_task_id :: "task_id option"

datatype Artifact = Artifact "Part list"

record TaskStatus =
  state :: TaskState
  message :: "Message option"

record Task =
  t_id :: task_id
  t_context_id :: string
  status :: TaskStatus
  status_history :: "TaskStatus list"
  artifacts :: "Artifact list"

datatype Event =
  StatusUpdate task_id string TaskState "Message option" bool
| ArtifactUpdate task_id string Artifact bool

datatype Error =
  NotFoundError
| InvalidTransitionError
| TaskClosedError
| TaskBusyError
| BusinessLogicError string
| KeyError string
| AttributeError


fun terminal :: "TaskState \<Rightarrow> bool" where
  "terminal COMPLETED = True"
| "terminal CANCELED = True"
| "terminal FAILED = True"
| "terminal _ = False"

text \<open>
  \<^verbatim>\<open>RequestContext\<close>, as \<^verbatim>\<open>execute\<close> reads it: the text of the
  user's message (\<^verbatim>\<open>get_user_input()\<close>, which the executor guards against a
  false value), the task the message continues (\<^verbatim>\<open>current_task\<close>,
  \<^verbatim>\<open>None\<close> for a new task) and the two identifiers.
\<close>

record RequestContext =
  get_user_input :: "string option"
  current_task :: "Task option"
  task_id :: task_id
  context_id :: string

text \<open>
  What one invocation acts on: the task record the updater writes (absent until the
  task is submitted) and the event queue of the invocation.
\<close>

record world =
  task :: "Task option"
  event_queue :: "Event list"

text \<open>
  A statement of the executor either returns normally or raises; the error, if any,
  comes back together with the state reached. Sequencing stops at the first error, as
  an uncaught Python exception does.
\<close>

type_synonym step = "world \<Rightarrow> Error option \<times> world"

definition skip :: step where
  "skip w = (None, w)"

definition raise :: "Error \<Rightarrow> step" where
  "raise e w = (Some e, w)"

definition and_then :: "step \<Rightarrow> step \<Rightarrow> step" where
  "and_then f g w = (case f w of (Some e, w') \<Rightarrow> (Some e, w') | (None, w') \<Rightarrow> g w')"

section \<open>The task state machine behind \<^verbatim>\<open>TaskUpdater\<close>\<close>

text \<open>
  Modelled from the spec: the class \<^verbatim>\<open>TaskUpdater\<close> belongs to the a2a SDK and
  is not among the sources. Its methods are the operations of the transition table of
  section 4.2: a legal transition appends the prior status to the history, sets the new
  status and pushes exactly one status event; an artifact pushes its own event, never
  final. The status event of \<open>requiresInput\<close> is final, as is that of a transition
  into a terminal state. A write against a terminal task is refused with
  \<open>TaskClosedError\<close> (sections 4.1, 7 and 8), any other transition that is not in the
  table with \<open>InvalidTransitionError\<close>, and both leave task and queue as they were.
  \<open>SUBMITTED\<close> is entered only when the task is created, so \<open>submit\<close> is the
  operation that creates the record.
\<close>

datatype operation = StartWork | RequiresInput | Complete | Cancel | Fail

fun target :: "TaskState \<Rightarrow> operation \<Rightarrow> TaskState option" where
  "target SUBMITTED StartWork = Some WORKING"
| "target INPUT_REQUIRED StartWork = Some WORKING"
| "target WORKING RequiresInput = Some INPUT_REQUIRED"
| "target WORKING Complete = Some COMPLETED"
| "target WORKING Fail = Some FAILED"
| "target SUBMITTED Cancel = Some CANCELED"
| "target WORKING Cancel = Some CANCELED"
| "target INPUT_REQUIRED Cancel = Some CANCELED"
| "target _ _ = None"

record TaskUpdater =
  u_task_id :: task_id
  u_context_id :: string

definition transition :: "TaskUpdater \<Rightarrow> operation \<Rightarrow> Message option \<Rightarrow> step" where
  "transition u oper m w =
     (case task w of
        None \<Rightarrow> (Some NotFoundError, w)
      | Some t \<Rightarrow>
          if terminal (state (status t)) then (Some TaskClosedError, w)
          else
            (case target (state (status t)) oper of
               None \<Rightarrow> (Some InvalidTransitionError, w)
             | Some s \<Rightarrow>
                 (None,
                  \<lparr>task = Some (t\<lparr>status := \<lparr>state = s, message = m\<rparr>,
                                   status_history := status_history t @ [status t]\<rparr>),
                   event_queue = event_queue w @
                     [StatusUpdate (u_task_id u) (u_context_id u) s m (s \<noteq> WORKING)]\<rparr>)))"

definition submit :: "TaskUpdater \<Rightarrow> step" where
  "submit u w =
     (case task w of
        None \<Rightarrow>
          (None,
           \<lparr>task = Some \<lparr>t_id = u_task_id u, t_context_id = u_context_id u,
                         status = \<lparr>state = SUBMITTED, message = None\<rparr>,
                         status_history = [], artifacts = []\<rparr>,
            event_queue = event_queue w @
              [StatusUpdate (u_task_id u) (u_context_id u) SUBMITTED None False]\<rparr>)
      | Some t \<Rightarrow>
          (Some (if terminal (state (status t)) then TaskClosedError
                 else InvalidTransitionError), w))"

definition start_work :: "TaskUpdater \<Rightarrow> step" where
  "start_work u = transition u StartWork None"

definition requires_input :: "TaskUpdater \<Rightarrow> Message \<Rightarrow> step" where
  "requires_input u m = transition u RequiresInput (Some m)"

definition complete :: "TaskUpdater \<Rightarrow> Message \<Rightarrow> step" where
  "complete u m = transition u Complete (Some m)"

definition failed :: "TaskUpdater \<Rightarrow> Message \<Rightarrow> step" where
  "failed u m = transition u Fail (Some m)"

definition updater_cancel :: "TaskUpdater \<Rightarrow> step" where
  "updater_cancel u = transition u Cancel None"

definition add_artifact :: "TaskUpdater \<Rightarrow> Part list \<Rightarrow> step" where
  "add_artifact u ps w =
     (case task w of
        None \<Rightarrow> (Some NotFoundError, w)
      | Some t \<Rightarrow>
          if terminal (state (status t)) then (Some TaskClosedError, w)
          else
            (None,
             \<lparr>task = Some (t\<lparr>artifacts := artifacts t @ [Artifact ps]\<rparr>),
              event_queue = event_queue w @
                [ArtifactUpdate (u_task_id u) (u_context_id u) (Artifact ps) False]\<rparr>))"

text \<open>
  Modelled from the spec: \<^verbatim>\<open>new_agent_text_message(text, context_id, task_id)\<close>
  of \<^verbatim>\<open>a2a.utils\<close> builds an agent message with one text part for the given task
  and context (section 3, Message).
\<close>

definition new_agent_text_message :: "string \<Rightarrow> string \<Rightarrow> task_id \<Rightarrow> Message" where
  "new_agent_text_message txt cid tid =
     \<lparr>role = RoleAgent, parts = [TextPart txt], m_context_id = cid, m_task_id = Some tid\<rparr>"

section \<open>The executor: \<^verbatim>\<open>TravelAgentExecutor\<close>\<close>

text \<open>
  \<^verbatim>\<open>booking['key']\<close> raises \<^verbatim>\<open>KeyError\<close> on a missing key;
  \<^verbatim>\<open>booking.get("type")\<close> does not. The f-string of the artifact reads its
  keys from left to right, so the first missing key is the one that raises.
\<close>

definition getitem :: "booking_dict \<Rightarrow> string \<Rightarrow> Error + string" where
  "getitem b k = (case map_of b k of None \<Rightarrow> Inl (KeyError k) | Some v \<Rightarrow> Inr v)"

fun format_fields :: "booking_dict \<Rightarrow> (string \<times> string) list \<Rightarrow> Error + string" where
  "format_fields b [] = Inr []"
| "format_fields b ((label, k) # rest) =
     (case getitem b k of
        Inl e \<Rightarrow> Inl e
      | Inr v \<Rightarrow>
          (case format_fields b rest of
             Inl e \<Rightarrow> Inl e
           | Inr s \<Rightarrow> Inr (''\<newline>'' @ label @ v @ s)))"

definition hotel_fields :: "(string \<times> string) list" where
  "hotel_fields =
     [(''Type        : '', ''type''),
      (''Hotel       : '', ''hotel''),
      (''Location    : '', ''location''),
      (''Check-in    : '', ''check_in''),
      (''Check-out   : '', ''check_out''),
      (''Room        : '', ''room''),
      (''Status      : '', ''status'')]"

definition flight_fields :: "(string \<times> string) list" where
  "flight_fields =
     [(''Type        : '', ''type''),
      (''Destination : '', ''destination''),
      (''Dates       : '', ''departure''),
      (''Airline     : '', ''airline''),
      (''Flight      : '', ''flight''),
      (''Status      : '', ''status'')]"

definition artifact_text :: "booking_dict \<Rightarrow> Error + string" where
  "artifact_text b =
     (case format_fields b
             (if map_of b ''type'' = Some ''Hotel'' then hotel_fields else flight_fields) of
        Inl e \<Rightarrow> Inl e
      | Inr s \<Rightarrow> Inr (''Booking Confirmation\<newline>===================='' @ s))"

text \<open>
  The executor holds its business logic in \<^verbatim>\<open>self.agent\<close> and awaits
  \<^verbatim>\<open>self.agent.process\<close>; a call that raises is the value \<open>Inl\<close>.
  \<^verbatim>\<open>__init__\<close> installs \<^verbatim>\<open>TravelAgent\<close>, whose \<^verbatim>\<open>process\<close>
  has no raising statement. The calls to the logger are left out.
\<close>

type_synonym agent_logic = "string \<Rightarrow> string \<Rightarrow> Error + result"

record TravelAgentExecutor =
  agent :: agent_logic

definition TravelAgent :: agent_logic where
  "TravelAgent user_input cid = Inr (process user_input cid)"

definition init :: TravelAgentExecutor where
  "init = \<lparr>agent = TravelAgent\<rparr>"

definition user_input_of :: "RequestContext \<Rightarrow> string" where
  "user_input_of ctx = (case get_user_input ctx of None \<Rightarrow> [] | Some u \<Rightarrow> u)"

definition execute :: "TravelAgentExecutor \<Rightarrow> RequestContext \<Rightarrow> step" where
  "execute self ctx =
     (let user_input = user_input_of ctx;
          updater = \<lparr>u_task_id = task_id ctx, u_context_id = context_id ctx\<rparr>
      in
      and_then (if current_task ctx = None then submit updater else skip)
     (and_then (start_work updater)
       (case agent self user_input (context_id ctx) of
          Inl e \<Rightarrow> raise e
        | Inr res \<Rightarrow>
            if needs_input res then
              requires_input updater
                (new_agent_text_message (response res) (context_id ctx) (task_id ctx))
            else
              (case booking res of
                 None \<Rightarrow> raise AttributeError
               | Some b \<Rightarrow>
                   (case artifact_text b of
                      Inl e \<Rightarrow> raise e
                    | Inr txt \<Rightarrow>
                        and_then (add_artifact updater [TextPart txt])
                          (complete updater
                            (new_agent_text_message (response res)
                               (context_id ctx) (task_id ctx))))))))"

definition cancel :: "TravelAgentExecutor \<Rightarrow> RequestContext \<Rightarrow> step" where
  "cancel self ctx =
     updater_cancel \<lparr>u_task_id = task_id ctx, u_context_id = context_id ctx\<rparr>"

text \<open>
  An invocation starts from the task as the request context holds it and from an empty
  queue.
\<close>

definition initial :: "RequestContext \<Rightarrow> world" where
  "initial ctx = \<lparr>task = current_task ctx, event_queue = []\<rparr>"

text \<open>
  The two texts the f-strings of \<^verbatim>\<open>execute\<close> produce: for the fixed hotel
  booking, and for a flight booking with the given departure text. The status message
  of a finished booking is built from the response of \<open>process\<close>.
\<close>

definition hotel_confirmation :: string where
  "hotel_confirmation =
     ''Booking Confirmation\<newline>====================\<newline>'' @
     ''Type        : Hotel\<newline>'' @
     ''Hotel       : Le Ciel Paris Airport\<newline>'' @
     ''Location    : Near Charles de Gaulle Airport, Paris\<newline>'' @
     ''Check-in    : June 15, 2026\<newline>'' @
     ''Check-out   : June 22, 2026\<newline>'' @
     ''Room        : Deluxe King\<newline>'' @
     ''Status      : CONFIRMED''"

definition flight_confirmation :: "string \<Rightarrow> string" where
  "flight_confirmation departure =
     ''Booking Confirmation\<newline>====================\<newline>'' @
     ''Type        : Flight\<newline>'' @
     ''Destination : Paris\<newline>'' @
     ''Dates       : '' @ departure @ ''\<newline>'' @
     ''Airline     : SkyHigh Airlines\<newline>'' @
     ''Flight      : SH-1042\<newline>'' @
     ''Status      : CONFIRMED''"

definition flight_booked :: string where
  "flight_booked = ''Your flight has been booked! Here are the details:''"

definition hotel_booked :: string where
  "hotel_booked = ''Your hotel has been booked! Here are the details:''"

text \<open>
  The task as the first turn of the flight conversation leaves it: waiting for input,
  with the question about the dates as its status message.
\<close>

definition awaiting_dates :: "task_id \<Rightarrow> string \<Rightarrow> Task" where
  "awaiting_dates tid cid =
     \<lparr>t_id = tid, t_context_id = cid,
      status = \<lparr>state = INPUT_REQUIRED,
                message = Some (new_agent_text_message ask_dates cid tid)\<rparr>,
      status_history = [\<lparr>state = SUBMITTED, message = None\<rparr>,
                        \<lparr>state = WORKING, message = None\<rparr>],
      artifacts = []\<rparr>"

text \<open>
  What an event pushes, without its final flag: a status with its message, or an
  artifact. The event that ends a turn of the executor is the status that
  \<^verbatim>\<open>requires_input\<close> or \<^verbatim>\<open>complete\<close> pushes.
\<close>

datatype Pushed = Status TaskState "Message option" | Attached Artifact




text \<open>
  The flight task after its second turn, as far as the state machine looks at it:
  completed, with the confirmation attached.
\<close>

definition completed_flight :: "task_id \<Rightarrow> string \<Rightarrow> Task" where
  "completed_flight tid cid =
     \<lparr>t_id = tid, t_context_id = cid,
      status = \<lparr>state = COMPLETED,
                message = Some (new_agent_text_message flight_booked cid tid)\<rparr>,
      status_history = [\<lparr>state = SUBMITTED, message = None\<rparr>,
                        \<lparr>state = WORKING, message = None\<rparr>,
                        \<lparr>state = INPUT_REQUIRED,
                         message = Some (new_agent_text_message ask_dates cid tid)\<rparr>,
                        \<lparr>state = WORKING, message = None\<rparr>],
      artifacts = [Artifact [TextPart (flight_confirmation ''June 15 - June 22, 2026'')]]\<rparr>"

section \<open>Store and dispatcher\<close>

text \<open>
  Modelled from the spec: the request handler and the task store that call the executor
  (\<^verbatim>\<open>DefaultRequestHandler\<close>, \<^verbatim>\<open>InMemoryTaskStore\<close>) belong to the
  a2a SDK and are not among the sources. The store maps task ids to task records, in
  creation order, and mints an id no record carries (section 4.1). \<open>handle\<close> follows
  the algorithm of section 4.4: a message without a task id starts a task under a minted
  id; a message with an unknown id fails with \<open>NotFoundError\<close>; a message for a
  terminal task fails with \<open>TaskClosedError\<close> before anything runs; otherwise the
  executor runs on the fetched task, and what it wrote is stored. \<open>cancelTask\<close>
  follows section 6: a no-op, reported as such, on a terminal task, and else the
  executor's \<open>cancel\<close>. The text handed to the logic is the text of the message's
  parts, in order.
\<close>

type_synonym store = "(task_id \<times> Task) list"

definition mint_id :: "store \<Rightarrow> task_id" where
  "mint_id st = Suc (foldr max (map fst st) 0)"

definition commit :: "store \<Rightarrow> world \<Rightarrow> store" where
  "commit st w = (case task w of None \<Rightarrow> st | Some t \<Rightarrow> AList.update (t_id t) t st)"

fun part_text :: "Part \<Rightarrow> string" where
  "part_text (TextPart s) = s"

definition message_text :: "Message \<Rightarrow> string" where
  "message_text m = concat (map part_text (parts m))"

definition dispatch ::
  "TravelAgentExecutor \<Rightarrow> store \<Rightarrow> Message \<Rightarrow> task_id \<Rightarrow> Task option \<Rightarrow> (Error + Task) \<times> store"
where
  "dispatch self st m tid cur =
     (let ctx = \<lparr>get_user_input = Some (message_text m), current_task = cur,
                 task_id = tid, context_id = m_context_id m\<rparr>
      in case execute self ctx (initial ctx) of
           (Some e, w) \<Rightarrow> (Inl e, commit st w)
         | (None, w) \<Rightarrow>
             (case task w of
                None \<Rightarrow> (Inl NotFoundError, commit st w)
              | Some t \<Rightarrow> (Inr t, commit st w)))"

definition handle ::
  "TravelAgentExecutor \<Rightarrow> store \<Rightarrow> Message \<Rightarrow> (Error + Task) \<times> store"
where
  "handle self st m =
     (case m_task_id m of
        None \<Rightarrow> dispatch self st m (mint_id st) None
      | Some tid \<Rightarrow>
          (case map_of st tid of
             None \<Rightarrow> (Inl NotFoundError, st)
           | Some t \<Rightarrow>
               if terminal (state (status t)) then (Inl TaskClosedError, st)
               else dispatch self st m tid (Some t)))"

datatype Ack = Canceled | NoOp

definition cancelTask ::
  "TravelAgentExecutor \<Rightarrow> store \<Rightarrow> task_id \<Rightarrow> (Error + Ack) \<times> store"
where
  "cancelTask self st tid =
     (case map_of st tid of
        None \<Rightarrow> (Inl NotFoundError, st)
      | Some t \<Rightarrow>
          if terminal (state (status t)) then (Inr NoOp, st)
          else
            (let ctx = \<lparr>get_user_input = None, current_task = Some t,
                        task_id = tid, context_id = t_context_id t\<rparr>
             in case cancel self ctx (initial ctx) of
                  (Some e, w) \<Rightarrow> (Inl e, st)
                | (None, w) \<Rightarrow> (Inr Canceled, commit st w)))"

section \<open>Auxiliary facts\<close>

lemmas run_defs = execute_def init_def TravelAgent_def initial_def and_then_def skip_def
  raise_def submit_def start_work_def requires_input_def complete_def add_artifact_def
  transition_def user_input_of_def Let_def

lemma process_hotel:
  "sublist ''hotel'' (lower u) \<Longrightarrow>
   process u c = \<lparr>response = hotel_booked, needs_input = False, booking = Some hotel_booking\<rparr>"
  by (simp add: process_def hotel_booked_def)

lemma artifact_text_hotel: "artifact_text hotel_booking = Inr hotel_confirmation"
  by (simp add: artifact_text_def hotel_booking_def hotel_fields_def getitem_def
      hotel_confirmation_def)

lemma artifact_text_flight:
  "artifact_text (flight_booking u) = Inr (flight_confirmation (strip u))"
  by (simp add: artifact_text_def flight_booking_def flight_fields_def getitem_def
      flight_confirmation_def)

lemma process_paris:
  "process ''Book a flight to Paris'' cid =
     \<lparr>response = ask_dates, needs_input = True, booking = None\<rparr>"
  by code_simp

lemma process_june:
  "process ''June 15 - June 22, 2026'' cid =
     \<lparr>response = flight_booked, needs_input = False,
      booking = Some (flight_booking ''June 15 - June 22, 2026'')\<rparr>"
  by code_simp

lemma strip_june: "strip ''June 15 - June 22, 2026'' = ''June 15 - June 22, 2026''"
  by code_simp

lemma process_marseille:
  "process ''Book a flight to Marseille'' cid =
     \<lparr>response = flight_booked, needs_input = False,
      booking = Some (flight_booking ''Book a flight to Marseille'')\<rparr>"
  by code_simp

lemma strip_marseille: "strip ''Book a flight to Marseille'' = ''Book a flight to Marseille''"
  by code_simp

lemma process_cases:
  "process u c = \<lparr>response = hotel_booked, needs_input = False, booking = Some hotel_booking\<rparr> \<or>
   process u c = \<lparr>response = flight_booked, needs_input = False,
                  booking = Some (flight_booking u)\<rparr> \<or>
   process u c = \<lparr>response = ask_dates, needs_input = True, booking = None\<rparr>"
  by (simp add: process_def Let_def hotel_booked_def flight_booked_def)

lemma hotel_booking_keys:
  "map_of hotel_booking ''type'' = Some ''Hotel''"
  "{''hotel'', ''location'', ''check_in'', ''check_out'', ''room'', ''status''}
     \<subseteq> dom (map_of hotel_booking)"
  by (simp_all add: hotel_booking_def)

lemma flight_booking_keys:
  "map_of (flight_booking u) ''type'' = Some ''Flight''"
  "{''destination'', ''departure'', ''airline'', ''flight'', ''status''}
     \<subseteq> dom (map_of (flight_booking u))"
  by (simp_all add: flight_booking_def)

lemma updater_errors:
  "fst (transition u oper m w) \<noteq> Some AttributeError"
  "fst (transition u oper m w) \<noteq> Some (KeyError k)"
  "fst (submit u w) \<noteq> Some AttributeError"
  "fst (submit u w) \<noteq> Some (KeyError k)"
  "fst (add_artifact u ps w) \<noteq> Some AttributeError"
  "fst (add_artifact u ps w) \<noteq> Some (KeyError k)"
  by (auto simp: transition_def submit_def add_artifact_def split: option.splits)

lemma and_then_error:
  "fst (and_then f g w) = Some e \<Longrightarrow> fst (f w) = Some e \<or> (\<exists>w'. fst (g w') = Some e)"
  by (auto simp: and_then_def split: prod.splits option.splits)

lemma key_le_max: "(k, v) \<in> set (st :: store) \<Longrightarrow> k \<le> foldr max (map fst st) 0"
  by (induction st) (auto simp: le_max_iff_disj)

lemma mint_id_fresh: "mint_id st \<notin> fst ` set st"
  unfolding mint_id_def using key_le_max [of _ _ st] by fastforce

section \<open>The claims\<close>

text \<open>
  C1. The message "Book a flight to Paris" without a task id: \<open>process\<close> asks for
  input and returns no booking, and \<open>execute\<close> calls \<open>submit\<close>, \<open>start_work\<close>
  and \<open>requires_input\<close> in this order. The task is created and goes through
  SUBMITTED, WORKING and INPUT_REQUIRED; the text of the last status asks for the
  travel dates.
\<close>

theorem scenario_first_turn:
  "process ''Book a flight to Paris'' cid =
     \<lparr>response = ask_dates, needs_input = True, booking = None\<rparr> \<and>
   sublist ''travel dates'' ask_dates \<and>
   execute init
     \<lparr>get_user_input = Some ''Book a flight to Paris'', current_task = None,
      task_id = tid, context_id = cid\<rparr>
     \<lparr>task = None, event_queue = []\<rparr> =
   (None,
    \<lparr>task = Some (awaiting_dates tid cid),
     event_queue =
       [StatusUpdate tid cid SUBMITTED None False,
        StatusUpdate tid cid WORKING None False,
        StatusUpdate tid cid INPUT_REQUIRED
          (Some (new_agent_text_message ask_dates cid tid)) True]\<rparr>)"
proof -
  have asks: "sublist ''travel dates'' ask_dates"
    by code_simp
  show ?thesis
    by (simp add: run_defs process_paris asks awaiting_dates_def)
qed

text \<open>
  C10. The result of \<open>process\<close> is a function of the input text alone: two calls that
  differ only in the context id return the same dict.
\<close>

theorem process_ignores_context_id:
  "process user_input c1 = process user_input c2"
  by (simp add: process_def)

text \<open>
  C2. The follow-up "June 15 - June 22, 2026" for a task that waits for input:
  \<open>process\<close> returns a flight booking whose departure is the stripped input, and
  \<open>execute\<close> calls \<open>start_work\<close>, \<open>add_artifact\<close> once, with the confirmation
  text, and \<open>complete\<close> with the confirming message. The task goes to WORKING and
  then to COMPLETED, and one artifact is attached to it.
\<close>

theorem scenario_second_turn:
  assumes "state (status t) = INPUT_REQUIRED"
  shows
    "process ''June 15 - June 22, 2026'' cid =
       \<lparr>response = flight_booked, needs_input = False,
        booking = Some (flight_booking ''June 15 - June 22, 2026'')\<rparr> \<and>
     map_of (flight_booking ''June 15 - June 22, 2026'') ''type'' = Some ''Flight'' \<and>
     map_of (flight_booking ''June 15 - June 22, 2026'') ''departure'' =
       Some (strip ''June 15 - June 22, 2026'') \<and>
     strip ''June 15 - June 22, 2026'' = ''June 15 - June 22, 2026'' \<and>
     execute init
       \<lparr>get_user_input = Some ''June 15 - June 22, 2026'', current_task = Some t,
        task_id = tid, context_id = cid\<rparr>
       \<lparr>task = Some t, event_queue = []\<rparr> =
     (None,
      \<lparr>task =
         Some (t\<lparr>status := \<lparr>state = COMPLETED,
                              message = Some (new_agent_text_message flight_booked cid tid)\<rparr>,
                  status_history :=
                    status_history t @ [status t, \<lparr>state = WORKING, message = None\<rparr>],
                  artifacts :=
                    artifacts t @
                    [Artifact [TextPart (flight_confirmation ''June 15 - June 22, 2026'')]]\<rparr>),
       event_queue =
         [StatusUpdate tid cid WORKING None False,
          ArtifactUpdate tid cid
            (Artifact [TextPart (flight_confirmation ''June 15 - June 22, 2026'')]) False,
          StatusUpdate tid cid COMPLETED
            (Some (new_agent_text_message flight_booked cid tid)) True]\<rparr>)"
proof -
  have keys:
    "map_of (flight_booking ''June 15 - June 22, 2026'') ''type'' = Some ''Flight'' \<and>
     map_of (flight_booking ''June 15 - June 22, 2026'') ''departure'' =
       Some (strip ''June 15 - June 22, 2026'')"
    by (simp add: flight_booking_def)
  have run:
    "execute init
       \<lparr>get_user_input = Some ''June 15 - June 22, 2026'', current_task = Some t,
        task_id = tid, context_id = cid\<rparr>
       \<lparr>task = Some t, event_queue = []\<rparr> =
     (None,
      \<lparr>task =
         Some (t\<lparr>status := \<lparr>state = COMPLETED,
                              message = Some (new_agent_text_message flight_booked cid tid)\<rparr>,
                  status_history :=
                    status_history t @ [status t, \<lparr>state = WORKING, message = None\<rparr>],
                  artifacts :=
                    artifacts t @
                    [Artifact [TextPart (flight_confirmation ''June 15 - June 22, 2026'')]]\<rparr>),
       event_queue =
         [StatusUpdate tid cid WORKING None False,
          ArtifactUpdate tid cid
            (Artifact [TextPart (flight_confirmation ''June 15 - June 22, 2026'')]) False,
          StatusUpdate tid cid COMPLETED
            (Some (new_agent_text_message flight_booked cid tid)) True]\<rparr>)"
    using assms
    by (simp add: run_defs process_june artifact_text_flight strip_june)
  from keys run show ?thesis
    by (simp only: process_june strip_june simp_thms)
qed

theorem scenario_second_turn_witness:
  "state (status (awaiting_dates 1 ''ctx'')) = INPUT_REQUIRED \<and>
   map_option (\<lambda>t. (state (status t), map state (status_history t), length (artifacts t)))
     (task (snd (execute init
        \<lparr>get_user_input = Some ''June 15 - June 22, 2026'',
         current_task = Some (awaiting_dates 1 ''ctx''),
         task_id = 1, context_id = ''ctx''\<rparr>
        \<lparr>task = Some (awaiting_dates 1 ''ctx''), event_queue = []\<rparr>))) =
     Some (COMPLETED, [SUBMITTED, WORKING, INPUT_REQUIRED, WORKING], 1)"
  using scenario_second_turn [of "awaiting_dates 1 ''ctx''" "''ctx''" 1]
  by (simp add: awaiting_dates_def)

text \<open>
  C9. "Book a flight to Marseille" names no date, but its lower-case form contains
  "mar": \<open>process\<close> returns a flight booking whose departure is the whole input, and
  a new task is completed in its first turn, without an INPUT_REQUIRED status.
\<close>

theorem marseille_single_turn:
  "sublist ''mar'' (lower ''Book a flight to Marseille'') \<and>
   process ''Book a flight to Marseille'' cid =
     \<lparr>response = flight_booked, needs_input = False,
      booking = Some [(''type'', ''Flight''), (''destination'', ''Paris''),
                      (''departure'', ''Book a flight to Marseille''),
                      (''airline'', ''SkyHigh Airlines''), (''flight'', ''SH-1042''),
                      (''status'', ''CONFIRMED'')]\<rparr> \<and>
   execute init
     \<lparr>get_user_input = Some ''Book a flight to Marseille'', current_task = None,
      task_id = tid, context_id = cid\<rparr>
     \<lparr>task = None, event_queue = []\<rparr> =
   (None,
    \<lparr>task =
       Some \<lparr>t_id = tid, t_context_id = cid,
             status = \<lparr>state = COMPLETED,
                       message = Some (new_agent_text_message flight_booked cid tid)\<rparr>,
             status_history = [\<lparr>state = SUBMITTED, message = None\<rparr>,
                               \<lparr>state = WORKING, message = None\<rparr>],
             artifacts =
               [Artifact [TextPart (flight_confirmation ''Book a flight to Marseille'')]]\<rparr>,
     event_queue =
       [StatusUpdate tid cid SUBMITTED None False,
        StatusUpdate tid cid WORKING None False,
        ArtifactUpdate tid cid
          (Artifact [TextPart (flight_confirmation ''Book a flight to Marseille'')]) False,
        StatusUpdate tid cid COMPLETED
          (Some (new_agent_text_message flight_booked cid tid)) True]\<rparr>)"
proof -
  have mar: "sublist ''mar'' (lower ''Book a flight to Marseille'')"
    by code_simp
  have booked:
    "process ''Book a flight to Marseille'' cid =
       \<lparr>response = flight_booked, needs_input = False,
        booking = Some [(''type'', ''Flight''), (''destination'', ''Paris''),
                        (''departure'', ''Book a flight to Marseille''),
                        (''airline'', ''SkyHigh Airlines''), (''flight'', ''SH-1042''),
                        (''status'', ''CONFIRMED'')]\<rparr>"
    by (simp add: process_marseille flight_booking_def strip_marseille)
  have run:
    "execute init
       \<lparr>get_user_input = Some ''Book a flight to Marseille'', current_task = None,
        task_id = tid, context_id = cid\<rparr>
       \<lparr>task = None, event_queue = []\<rparr> =
     (None,
      \<lparr>task =
         Some \<lparr>t_id = tid, t_context_id = cid,
               status = \<lparr>state = COMPLETED,
                         message = Some (new_agent_text_message flight_booked cid tid)\<rparr>,
               status_history = [\<lparr>state = SUBMITTED, message = None\<rparr>,
                                 \<lparr>state = WORKING, message = None\<rparr>],
               artifacts =
                 [Artifact [TextPart (flight_confirmation ''Book a flight to Marseille'')]]\<rparr>,
       event_queue =
         [StatusUpdate tid cid SUBMITTED None False,
          StatusUpdate tid cid WORKING None False,
          ArtifactUpdate tid cid
            (Artifact [TextPart (flight_confirmation ''Book a flight to Marseille'')]) False,
          StatusUpdate tid cid COMPLETED
            (Some (new_agent_text_message flight_booked cid tid)) True]\<rparr>)"
    by (simp add: run_defs process_marseille artifact_text_flight strip_marseille)
  from mar booked run show ?thesis
    by (simp only: simp_thms)
qed




text \<open>
  C8. Whenever \<open>process\<close> returns \<open>needs_input = False\<close>, its booking is a dict that
  has the key "type" and every key the artifact text of its type reads, so the text is
  built without an error; and no run of \<open>execute\<close> ends in the error of an access to
  a \<open>None\<close> booking or to a missing key.
\<close>

theorem process_booking_keys:
  "(\<not> needs_input (process u c) \<longrightarrow>
      (\<exists>b txt. booking (process u c) = Some b \<and>
         ''type'' \<in> dom (map_of b) \<and>
         (if map_of b ''type'' = Some ''Hotel''
          then {''hotel'', ''location'', ''check_in'', ''check_out'', ''room'', ''status''}
                 \<subseteq> dom (map_of b)
          else {''destination'', ''departure'', ''airline'', ''flight'', ''status''}
                 \<subseteq> dom (map_of b)) \<and>
         artifact_text b = Inr txt)) \<and>
   fst (execute init ctx w) \<noteq> Some AttributeError \<and>
   fst (execute init ctx w) \<noteq> Some (KeyError k)"
proof -
  have keys: "\<not> needs_input (process u c) \<longrightarrow>
      (\<exists>b txt. booking (process u c) = Some b \<and>
         ''type'' \<in> dom (map_of b) \<and>
         (if map_of b ''type'' = Some ''Hotel''
          then {''hotel'', ''location'', ''check_in'', ''check_out'', ''room'', ''status''}
                 \<subseteq> dom (map_of b)
          else {''destination'', ''departure'', ''airline'', ''flight'', ''status''}
                 \<subseteq> dom (map_of b)) \<and>
         artifact_text b = Inr txt)"
    using process_cases [of u c] hotel_booking_keys flight_booking_keys [of u]
    by (auto simp: artifact_text_hotel artifact_text_flight)
  have "e \<noteq> AttributeError \<and> e \<noteq> KeyError k" if "fst (execute init ctx w) = Some e" for e
    using that process_cases [of "user_input_of ctx" "context_id ctx"] updater_errors
    by (auto simp: execute_def init_def TravelAgent_def Let_def skip_def
        start_work_def requires_input_def complete_def
        artifact_text_hotel artifact_text_flight
        dest!: and_then_error split: if_splits)
  with keys show ?thesis by blast
qed

theorem process_booking_keys_witness:
  "\<not> needs_input (process ''Book a hotel near the airport in Paris'' ''ctx'') \<and>
   (\<exists>b txt. booking (process ''Book a hotel near the airport in Paris'' ''ctx'') = Some b \<and>
      ''type'' \<in> dom (map_of b) \<and> artifact_text b = Inr txt)"
proof -
  have booked: "\<not> needs_input (process ''Book a hotel near the airport in Paris'' ''ctx'')"
    by code_simp
  with process_booking_keys [of "''Book a hotel near the airport in Paris''" "''ctx''"]
  show ?thesis by blast
qed


text \<open>
  C5. A message without a task id whose lower-case text contains "hotel": \<open>process\<close>
  returns the fixed hotel booking, whatever else the text contains; the dispatcher
  runs \<open>execute\<close> under an id no stored task has and with the context id of the
  message; \<open>execute\<close> pushes the SUBMITTED and WORKING statuses, one artifact with the
  hotel confirmation and the COMPLETED status, and no INPUT_REQUIRED status. The new
  task is stored behind the tasks that were there, which are unchanged.
\<close>

theorem hotel_message_new_task:
  assumes "m_task_id m = None" and "sublist ''hotel'' (lower (message_text m))"
  shows
    "process (message_text m) (m_context_id m) =
       \<lparr>response = hotel_booked, needs_input = False, booking = Some hotel_booking\<rparr> \<and>
     (let tid = mint_id st; cid = m_context_id m;
          t = \<lparr>t_id = tid, t_context_id = cid,
               status = \<lparr>state = COMPLETED,
                         message = Some (new_agent_text_message hotel_booked cid tid)\<rparr>,
               status_history = [\<lparr>state = SUBMITTED, message = None\<rparr>,
                                 \<lparr>state = WORKING, message = None\<rparr>],
               artifacts = [Artifact [TextPart hotel_confirmation]]\<rparr>
      in tid \<notin> fst ` set st \<and>
         execute init
           \<lparr>get_user_input = Some (message_text m), current_task = None,
            task_id = tid, context_id = cid\<rparr>
           \<lparr>task = None, event_queue = []\<rparr> =
         (None,
          \<lparr>task = Some t,
           event_queue =
             [StatusUpdate tid cid SUBMITTED None False,
              StatusUpdate tid cid WORKING None False,
              ArtifactUpdate tid cid (Artifact [TextPart hotel_confirmation]) False,
              StatusUpdate tid cid COMPLETED
                (Some (new_agent_text_message hotel_booked cid tid)) True]\<rparr>) \<and>
         handle init st m = (Inr t, st @ [(tid, t)]))"
proof -
  have run: "execute init
           \<lparr>get_user_input = Some (message_text m), current_task = None,
            task_id = tid, context_id = cid\<rparr>
           \<lparr>task = None, event_queue = []\<rparr> =
         (None,
          \<lparr>task = Some \<lparr>t_id = tid, t_context_id = cid,
               status = \<lparr>state = COMPLETED,
                         message = Some (new_agent_text_message hotel_booked cid tid)\<rparr>,
               status_history = [\<lparr>state = SUBMITTED, message = None\<rparr>,
                                 \<lparr>state = WORKING, message = None\<rparr>],
               artifacts = [Artifact [TextPart hotel_confirmation]]\<rparr>,
           event_queue =
             [StatusUpdate tid cid SUBMITTED None False,
              StatusUpdate tid cid WORKING None False,
              ArtifactUpdate tid cid (Artifact [TextPart hotel_confirmation]) False,
              StatusUpdate tid cid COMPLETED
                (Some (new_agent_text_message hotel_booked cid tid)) True]\<rparr>)" for tid cid
    using assms(2) by (simp add: run_defs process_hotel artifact_text_hotel)
  have upd: "AList.update k v st = st @ [(k, v)]" if "k \<notin> fst ` set st" for k and v :: Task
    using that by (induction st) auto
  show ?thesis
    using assms mint_id_fresh [of st]
    by (simp add: Let_def run process_hotel handle_def dispatch_def initial_def commit_def upd)
qed

theorem hotel_message_new_task_witness:
  "(let m = \<lparr>role = RoleUser, parts = [TextPart ''Book a hotel for June 2026''],
             m_context_id = ''ctx'', m_task_id = None\<rparr>;
        st = [(1, completed_flight 1 ''ctx'')]
    in m_task_id m = None \<and>
       sublist ''hotel'' (lower (message_text m)) \<and>
       has_date (lower (message_text m)) \<and>
       map (\<lambda>(k, t). (k, t_id t, t_context_id t, state (status t), length (artifacts t)))
         (snd (handle init st m)) =
       [(1, 1, ''ctx'', COMPLETED, 1), (2, 2, ''ctx'', COMPLETED, 1)])"
proof -
  have hotel: "sublist ''hotel'' (lower ''Book a hotel for June 2026'')"
    by code_simp
  have june: "has_date (lower ''Book a hotel for June 2026'')"
    by code_simp
  show ?thesis
    using hotel_message_new_task
      [of "\<lparr>role = RoleUser, parts = [TextPart ''Book a hotel for June 2026''],
             m_context_id = ''ctx'', m_task_id = None\<rparr>"
          "[(1, completed_flight 1 ''ctx'')]"]
    by (simp add: Let_def message_text_def hotel june mint_id_def completed_flight_def)
qed

text \<open>
  C6. A message that names a task in a terminal state is refused with
  \<open>TaskClosedError\<close> and the store stays as it was; and \<open>execute\<close>, run on such a
  task all the same, fails in \<open>start_work\<close> with the same error and changes neither
  the task (status, history, artifacts) nor the queue.
\<close>

theorem terminal_task_rejected:
  assumes "m_task_id m = Some tid" and "map_of st tid = Some t"
    and "terminal (state (status t))"
  shows
    "handle self st m = (Inl TaskClosedError, st) \<and>
     execute self
       \<lparr>get_user_input = ui, current_task = Some t, task_id = tid, context_id = cid\<rparr>
       \<lparr>task = Some t, event_queue = q\<rparr> =
     (Some TaskClosedError, \<lparr>task = Some t, event_queue = q\<rparr>) \<and>
     start_work u \<lparr>task = Some t, event_queue = q\<rparr> =
     (Some TaskClosedError, \<lparr>task = Some t, event_queue = q\<rparr>)"
  using assms
  by (simp add: handle_def execute_def and_then_def skip_def start_work_def transition_def
      Let_def)


theorem terminal_task_rejected_witness:
  "(let t = completed_flight 1 ''ctx''; st = [(1, t)];
        m = \<lparr>role = RoleUser, parts = [TextPart ''One more thing''],
             m_context_id = ''ctx'', m_task_id = Some 1\<rparr>
    in m_task_id m = Some 1 \<and> map_of st 1 = Some t \<and> terminal (state (status t)) \<and>
       handle init st m = (Inl TaskClosedError, st))"
  using terminal_task_rejected
    [of "\<lparr>role = RoleUser, parts = [TextPart ''One more thing''],
             m_context_id = ''ctx'', m_task_id = Some 1\<rparr>"
        1 "[(1, completed_flight 1 ''ctx'')]" "completed_flight 1 ''ctx''" init]
  by (simp add: Let_def completed_flight_def)

text \<open>
  C7. \<open>cancelTask\<close> on a task in a terminal state answers with the no-op
  acknowledgement and leaves the store as it was; and the executor's \<open>cancel\<close>, run
  on such a task all the same, is refused by the state machine: no CANCELED status is
  recorded, and task and queue are unchanged.
\<close>

theorem cancel_terminal_noop:
  assumes "map_of st tid = Some t" and "terminal (state (status t))"
  shows
    "cancelTask self st tid = (Inr NoOp, st) \<and>
     cancel self
       \<lparr>get_user_input = ui, current_task = Some t, task_id = tid, context_id = cid\<rparr>
       \<lparr>task = Some t, event_queue = q\<rparr> =
     (Some TaskClosedError, \<lparr>task = Some t, event_queue = q\<rparr>)"
  using assms
  by (simp add: cancelTask_def cancel_def updater_cancel_def transition_def)


theorem cancel_terminal_noop_witness:
  "(let t = completed_flight 1 ''ctx''; st = [(1, t)]
    in map_of st 1 = Some t \<and> terminal (state (status t)) \<and>
       cancelTask init st 1 = (Inr NoOp, st))"
  using cancel_terminal_noop [of "[(1, completed_flight 1 ''ctx'')]" 1 "completed_flight 1 ''ctx''" init]
  by (simp add: Let_def completed_flight_def)

end
